theory Spec2Isabelle
  imports Complex_Main
begin

section \<open>The host scene\<close>

text \<open>
  The tool (relativeMatrixConstraints.py) is a client of the host application's command
  layer (\<^verbatim>\<open>maya.cmds\<close>, \<^verbatim>\<open>maya.mel\<close>, \<^verbatim>\<open>maya.api.OpenMaya\<close>). The host is not part
  of the repository; the part of it that the tool touches is modelled here as an explicit
  scene value that every command takes and returns. A command that raises in the host
  returns \<open>Inl\<close> with the exception; Python's \<^verbatim>\<open>None\<close> for "no result" is the empty list.

  Modelling decisions for the host, all of them stated where they are made:
  \<^item> a node is identified by its name (the unique name the host reports for it);
  \<^item> only dynamic attributes (those added with \<^verbatim>\<open>addAttr\<close>) are tracked per node; the
    static plugs the tool addresses (\<^verbatim>\<open>message\<close>, \<^verbatim>\<open>worldMatrix[0]\<close>, \<^verbatim>\<open>translate\<close>, ...)
    are taken to be present on every node it addresses them on;
  \<^item> deleting a node removes the node and every connection at one of its plugs; the host's
    further clean-up of nodes left dangling is not modelled;
  \<^item> a 4 by 4 matrix is its entry function on row and column indices 0 to 3, and the
    floating-point entries are idealised as real numbers.
\<close>

datatype error = RuntimeError | ValueError

type_synonym name = string
type_synonym plug = "name \<times> string"
type_synonym matrix = "nat \<Rightarrow> nat \<Rightarrow> real"

datatype attr_value = BoolVal bool | StringVal string | MessageVal

record node =
  node_type :: string
  parent :: "name option"
  attrs :: "(string \<times> attr_value) list"

record scene =
  nodes :: "(name \<times> node) list"
  conns :: "(plug \<times> plug) list"
  keys :: "(plug \<times> int) list"
  transformation :: "name \<Rightarrow> matrix"
  eval_mode :: string
  pane_managed :: bool
  refresh_suspended :: bool
  timeslider_visible :: bool

text \<open>\<open>conns\<close> holds one pair (source plug, destination plug) per connection; \<open>keys\<close> one
  pair (plug, frame) per keyframe; \<open>nodes\<close> is in the host's enumeration order.\<close>

definition lookup :: "scene \<Rightarrow> name \<Rightarrow> node option" where
  "lookup sc n = map_of (nodes sc) n"

definition node_names :: "scene \<Rightarrow> name list" where
  "node_names sc = map fst (nodes sc)"

text \<open>\<^verbatim>\<open>cmds.objExists(n)\<close>\<close>

definition objExists :: "scene \<Rightarrow> name \<Rightarrow> bool" where
  "objExists sc n = (lookup sc n \<noteq> None)"

text \<open>\<^verbatim>\<open>cmds.nodeType(n)\<close>: raises when no node has that name.\<close>

definition nodeType :: "scene \<Rightarrow> name \<Rightarrow> error + string" where
  "nodeType sc n = (case lookup sc n of None \<Rightarrow> Inl RuntimeError | Some nd \<Rightarrow> Inr (node_type nd))"

text \<open>\<^verbatim>\<open>cmds.ls(type=ty) or []\<close>: the names of the nodes of that type, in enumeration order.\<close>

definition ls_type :: "scene \<Rightarrow> string \<Rightarrow> name list" where
  "ls_type sc ty =
     filter (\<lambda>n. case lookup sc n of None \<Rightarrow> False | Some nd \<Rightarrow> node_type nd = ty) (node_names sc)"

text \<open>\<^verbatim>\<open>cmds.attributeQuery(a, node=n, exists=True)\<close>: whether the node carries the (dynamic)
  attribute; the command raises when the node itself does not exist.\<close>

definition attributeQuery_exists :: "scene \<Rightarrow> string \<Rightarrow> name \<Rightarrow> error + bool" where
  "attributeQuery_exists sc a n =
     (case lookup sc n of None \<Rightarrow> Inl RuntimeError
      | Some nd \<Rightarrow> Inr (map_of (attrs nd) a \<noteq> None))"

text \<open>\<^verbatim>\<open>cmds.getAttr(n + '.' + a)\<close>: the stored value; raises when the plug does not exist,
  and for a message attribute, which has no value.\<close>

definition getAttr :: "scene \<Rightarrow> name \<Rightarrow> string \<Rightarrow> error + attr_value" where
  "getAttr sc n a =
     (case lookup sc n of None \<Rightarrow> Inl ValueError
      | Some nd \<Rightarrow>
         (case map_of (attrs nd) a of None \<Rightarrow> Inl ValueError
          | Some MessageVal \<Rightarrow> Inl RuntimeError
          | Some v \<Rightarrow> Inr v))"

definition update_node :: "scene \<Rightarrow> name \<Rightarrow> (node \<Rightarrow> node) \<Rightarrow> scene" where
  "update_node sc n f = sc\<lparr>nodes := map (\<lambda>(k, nd). if k = n then (k, f nd) else (k, nd)) (nodes sc)\<rparr>"

text \<open>\<^verbatim>\<open>cmds.addAttr(n, longName=a, ...)\<close>: a new dynamic attribute with the default value of
  its kind (False, the empty string, or a message plug); raises when the node is missing or
  already has an attribute of that name.\<close>

definition addAttr :: "scene \<Rightarrow> name \<Rightarrow> string \<Rightarrow> attr_value \<Rightarrow> error + scene" where
  "addAttr sc n a dflt =
     (case lookup sc n of None \<Rightarrow> Inl RuntimeError
      | Some nd \<Rightarrow>
         (if map_of (attrs nd) a \<noteq> None then Inl RuntimeError
          else Inr (update_node sc n (\<lambda>nd. nd\<lparr>attrs := attrs nd @ [(a, dflt)]\<rparr>))))"

text \<open>\<^verbatim>\<open>cmds.setAttr(n + '.' + a, v)\<close>: raises when the plug does not exist.\<close>

definition setAttr :: "scene \<Rightarrow> name \<Rightarrow> string \<Rightarrow> attr_value \<Rightarrow> error + scene" where
  "setAttr sc n a v =
     (case lookup sc n of None \<Rightarrow> Inl RuntimeError
      | Some nd \<Rightarrow>
         (if map_of (attrs nd) a = None then Inl RuntimeError
          else Inr (update_node sc n
                 (\<lambda>nd. nd\<lparr>attrs := map (\<lambda>(k, w). if k = a then (k, v) else (k, w)) (attrs nd)\<rparr>))))"

text \<open>Connections at a plug: the nodes feeding it, and the nodes it feeds.\<close>

definition incoming :: "scene \<Rightarrow> plug \<Rightarrow> (plug \<times> plug) list" where
  "incoming sc p = filter (\<lambda>(s, d). d = p) (conns sc)"

definition outgoing :: "scene \<Rightarrow> plug \<Rightarrow> (plug \<times> plug) list" where
  "outgoing sc p = filter (\<lambda>(s, d). s = p) (conns sc)"

text \<open>\<^verbatim>\<open>cmds.listConnections(plug, source=True)\<close>: the \<^verbatim>\<open>destination\<close> flag keeps its default
  True, so the nodes on both sides of the plug are listed, the feeding ones first. Raises
  when the node does not exist.\<close>

definition listConnections :: "scene \<Rightarrow> plug \<Rightarrow> error + name list" where
  "listConnections sc p =
     (if objExists sc (fst p)
      then Inr (map (\<lambda>(s, d). fst s) (incoming sc p) @ map (\<lambda>(s, d). fst d) (outgoing sc p))
      else Inl ValueError)"

text \<open>\<^verbatim>\<open>cmds.listConnections(plug, source=True, destination=False)\<close>: the feeding nodes only.\<close>

definition listConnections_source :: "scene \<Rightarrow> plug \<Rightarrow> error + name list" where
  "listConnections_source sc p =
     (if objExists sc (fst p) then Inr (map (\<lambda>(s, d). fst s) (incoming sc p)) else Inl ValueError)"

text \<open>\<^verbatim>\<open>cmds.listConnections(plug, source=True, destination=False, plugs=True,
  connections=True)\<close>: the host returns the flat list [dest, src, dest, src, ...]; the model
  returns the pairs (dest, src) that the caller reads at indices i and i + 1.\<close>

definition listConnections_plugs :: "scene \<Rightarrow> plug \<Rightarrow> error + (plug \<times> plug) list" where
  "listConnections_plugs sc p =
     (if objExists sc (fst p) then Inr (map (\<lambda>(s, d). (d, s)) (incoming sc p)) else Inl ValueError)"

text \<open>\<^verbatim>\<open>cmds.connectAttr(src, dst)\<close>: raises when either node is missing or the destination
  plug already has an incoming connection.\<close>

definition connectAttr :: "scene \<Rightarrow> plug \<Rightarrow> plug \<Rightarrow> error + scene" where
  "connectAttr sc s d =
     (if \<not> objExists sc (fst s) \<or> \<not> objExists sc (fst d) \<or> incoming sc d \<noteq> []
      then Inl RuntimeError
      else Inr (sc\<lparr>conns := conns sc @ [(s, d)]\<rparr>))"

text \<open>\<^verbatim>\<open>cmds.disconnectAttr(src, dst)\<close>: raises when there is no such connection.\<close>

definition disconnectAttr :: "scene \<Rightarrow> plug \<Rightarrow> plug \<Rightarrow> error + scene" where
  "disconnectAttr sc s d =
     (if (s, d) \<in> set (conns sc)
      then Inr (sc\<lparr>conns := filter (\<lambda>c. c \<noteq> (s, d)) (conns sc)\<rparr>)
      else Inl RuntimeError)"

text \<open>\<^verbatim>\<open>cmds.delete(n)\<close>: raises when no node has that name; the node goes with its
  connections and its keyframes.\<close>

definition delete :: "scene \<Rightarrow> name \<Rightarrow> error + scene" where
  "delete sc n =
     (if objExists sc n
      then Inr (sc\<lparr>nodes := filter (\<lambda>(k, nd). k \<noteq> n) (nodes sc),
                   conns := filter (\<lambda>(s, d). fst s \<noteq> n \<and> fst d \<noteq> n) (conns sc),
                   keys := filter (\<lambda>(p, f). fst p \<noteq> n) (keys sc)\<rparr>)
      else Inl ValueError)"

text \<open>\<^verbatim>\<open>cmds.listRelatives(n, parent=True)\<close>: the DAG parent, if any.\<close>

definition listRelatives_parent :: "scene \<Rightarrow> name \<Rightarrow> error + name list" where
  "listRelatives_parent sc n =
     (case lookup sc n of None \<Rightarrow> Inl ValueError
      | Some nd \<Rightarrow> Inr (case parent nd of None \<Rightarrow> [] | Some p \<Rightarrow> [p]))"

subsection \<open>Host-assigned names\<close>

text \<open>\<^verbatim>\<open>cmds.createNode(ty, name=prefix + '#')\<close>: the host replaces \<^verbatim>\<open>#\<close> by a number that
  makes the name unique; the model takes the least positive one.\<close>

definition digit_char :: "nat \<Rightarrow> char" where
  "digit_char d = ''0123456789'' ! d"

fun str_nat :: "nat \<Rightarrow> string" where
  "str_nat n = (if n < 10 then [digit_char n] else str_nat (n div 10) @ [digit_char (n mod 10)])"

declare str_nat.simps [simp del]

definition unique_name :: "scene \<Rightarrow> string \<Rightarrow> name option" where
  "unique_name sc prefix =
     map_option (\<lambda>i. prefix @ str_nat i)
       (find (\<lambda>i. prefix @ str_nat i \<notin> set (node_names sc)) [1 ..< length (nodes sc) + 2])"

definition createNode :: "scene \<Rightarrow> string \<Rightarrow> string \<Rightarrow> error + scene \<times> name" where
  "createNode sc ty prefix =
     (case unique_name sc prefix of None \<Rightarrow> Inl RuntimeError
      | Some n \<Rightarrow>
          Inr (sc\<lparr>nodes := nodes sc @ [(n, \<lparr>node_type = ty, parent = None, attrs = []\<rparr>)]\<rparr>, n))"

subsection \<open>Evaluation and user-interface switches\<close>

text \<open>\<^verbatim>\<open>cmds.evaluationManager(q=True, mode=True)\<close> returns a one-element list.\<close>

definition evaluationManager_query :: "scene \<Rightarrow> string list" where
  "evaluationManager_query sc = [eval_mode sc]"

definition evaluationManager_mode :: "scene \<Rightarrow> string \<Rightarrow> scene" where
  "evaluationManager_mode sc m = sc\<lparr>eval_mode := m\<rparr>"

text \<open>\<^verbatim>\<open>mel.eval("paneLayout -e -manage <b> $gMainPane")\<close>\<close>

definition paneLayout_manage :: "scene \<Rightarrow> bool \<Rightarrow> scene" where
  "paneLayout_manage sc b = sc\<lparr>pane_managed := b\<rparr>"

text \<open>\<^verbatim>\<open>cmds.refresh(suspend=b)\<close>\<close>

definition refresh_suspend :: "scene \<Rightarrow> bool \<Rightarrow> scene" where
  "refresh_suspend sc b = sc\<lparr>refresh_suspended := b\<rparr>"

text \<open>\<^verbatim>\<open>mel.eval("setTimeSliderVisible <b>;")\<close>\<close>

definition setTimeSliderVisible :: "scene \<Rightarrow> bool \<Rightarrow> scene" where
  "setTimeSliderVisible sc b = sc\<lparr>timeslider_visible := b\<rparr>"

text \<open>\<^verbatim>\<open>cmds.bakeResults(target, time=(start, end), sampleBy=1, attribute=as)\<close>: one keyframe
  on each listed channel of the target at start, start + 1, ..., up to end; raises when the
  target does not exist. Key values and the animation-curve nodes that hold them are not
  modelled.\<close>

definition bakeResults :: "scene \<Rightarrow> name \<Rightarrow> int \<Rightarrow> int \<Rightarrow> string list \<Rightarrow> error + scene" where
  "bakeResults sc target start_frame end_frame as =
     (if objExists sc target
      then Inr (sc\<lparr>keys := keys sc @ concat (map (\<lambda>a. map (\<lambda>f. ((target, a), f)) [start_frame .. end_frame]) as)\<rparr>)
      else Inl ValueError)"

section \<open>The tool\<close>

subsection \<open>Constants\<close>

definition NETWORK_NODE_IDENTIFIER :: string where
  "NETWORK_NODE_IDENTIFIER = ''relMatrixConstraintData''"

definition NETWORK_NODE_PREFIX :: string where
  "NETWORK_NODE_PREFIX = ''relMtxConstraint''"

subsection \<open>The viewport\_off decorator\<close>

text \<open>The wrapped function is any computation on the scene that returns a value or raises;
  in both cases it leaves a scene behind, on which the \<^verbatim>\<open>finally\<close> block then runs.\<close>

definition viewport_off :: "(scene \<Rightarrow> (error + 'a) \<times> scene) \<Rightarrow> scene \<Rightarrow> (error + 'a) \<times> scene" where
  "viewport_off func sc =
     (let parallel = (''parallel'' \<in> set (evaluationManager_query sc));
          sc1 = (if parallel then evaluationManager_mode sc ''off'' else sc);
          sc2 = paneLayout_manage sc1 False;
          sc3 = refresh_suspend sc2 True;
          sc4 = setTimeSliderVisible sc3 False;
          (r, sc5) = func sc4;
          sc6 = refresh_suspend sc5 False;
          sc7 = setTimeSliderVisible sc6 True;
          sc8 = (if parallel then evaluationManager_mode sc7 ''parallel'' else sc7);
          sc9 = paneLayout_manage sc8 True
      in (r, sc9))"

definition bake_attributes :: "string list" where
  "bake_attributes = [''tx'', ''ty'', ''tz'', ''rx'', ''ry'', ''rz'']"

definition bake_body :: "name \<Rightarrow> int \<Rightarrow> int \<Rightarrow> scene \<Rightarrow> (error + unit) \<times> scene" where
  "bake_body target start_frame end_frame sc =
     (case bakeResults sc target start_frame end_frame bake_attributes of
        Inl e \<Rightarrow> (Inl e, sc)
      | Inr sc' \<Rightarrow> (Inr (), sc'))"

definition bake_with_viewport_off :: "name \<Rightarrow> int \<Rightarrow> int \<Rightarrow> scene \<Rightarrow> (error + unit) \<times> scene" where
  "bake_with_viewport_off target start_frame end_frame =
     viewport_off (bake_body target start_frame end_frame)"

subsection \<open>Registry\<close>

fun collect_constraint_nodes :: "scene \<Rightarrow> name list \<Rightarrow> error + name list" where
  "collect_constraint_nodes sc [] = Inr []"
| "collect_constraint_nodes sc (n # ns) =
     (case attributeQuery_exists sc NETWORK_NODE_IDENTIFIER n of
        Inl e \<Rightarrow> Inl e
      | Inr b \<Rightarrow>
         (case collect_constraint_nodes sc ns of
            Inl e \<Rightarrow> Inl e
          | Inr r \<Rightarrow> Inr (if b then n # r else r)))"

definition find_constraint_network_nodes :: "scene \<Rightarrow> error + name list" where
  "find_constraint_network_nodes sc = collect_constraint_nodes sc (ls_type sc ''network'')"


subsection \<open>Sequencing of commands that may raise\<close>

definition seq :: "error + 'a \<Rightarrow> ('a \<Rightarrow> error + 'b) \<Rightarrow> error + 'b" where
  "seq m f = (case m of Inl e \<Rightarrow> Inl e | Inr x \<Rightarrow> f x)"

subsection \<open>Metadata store: get\_constraint\_data\<close>

record constraint_data =
  network_node :: name
  display_name :: attr_value
  source_ref :: "name option"
  source_driven :: "name option"
  target_ref :: "name option"
  target_driven :: "name option"
  mult_matrix :: "name option"
  decompose_matrix :: "name option"

text \<open>Python's \<^verbatim>\<open>v or ''\<close> on an attribute value: a falsy value gives the empty string.\<close>

fun or_empty :: "attr_value \<Rightarrow> attr_value" where
  "or_empty (BoolVal False) = StringVal []"
| "or_empty v = v"

text \<open>The table \<^verbatim>\<open>attr_map\<close>, in the dictionary's insertion order; the data key is the
  assignment to that key.\<close>

definition attr_map :: "(string \<times> (name \<Rightarrow> constraint_data \<Rightarrow> constraint_data)) list" where
  "attr_map =
     [(''sourceRef'', \<lambda>c d. d\<lparr>source_ref := Some c\<rparr>),
      (''sourceDriven'', \<lambda>c d. d\<lparr>source_driven := Some c\<rparr>),
      (''targetRef'', \<lambda>c d. d\<lparr>target_ref := Some c\<rparr>),
      (''targetDriven'', \<lambda>c d. d\<lparr>target_driven := Some c\<rparr>),
      (''multMatrixNode'', \<lambda>c d. d\<lparr>mult_matrix := Some c\<rparr>),
      (''decomposeMatrixNode'', \<lambda>c d. d\<lparr>decompose_matrix := Some c\<rparr>)]"

text \<open>One pass of the loop body: the first connection of the reference attribute, if the
  attribute exists and has a connection.\<close>

definition read_reference :: "scene \<Rightarrow> name \<Rightarrow> string \<Rightarrow> error + name option" where
  "read_reference sc nn a =
     seq (attributeQuery_exists sc a nn) (\<lambda>ex.
       if ex then seq (listConnections sc (nn, a))
                    (\<lambda>connections. Inr (case connections of [] \<Rightarrow> None | c # cs \<Rightarrow> Some c))
       else Inr None)"

fun read_references ::
  "scene \<Rightarrow> name \<Rightarrow> (string \<times> (name \<Rightarrow> constraint_data \<Rightarrow> constraint_data)) list \<Rightarrow>
     constraint_data \<Rightarrow> error + constraint_data" where
  "read_references sc nn [] d = Inr d"
| "read_references sc nn ((a, assign) # rest) d =
     seq (read_reference sc nn a) (\<lambda>r.
       read_references sc nn rest (case r of None \<Rightarrow> d | Some c \<Rightarrow> assign c d))"

definition initial_data :: "name \<Rightarrow> constraint_data" where
  "initial_data nn =
     \<lparr>network_node = nn, display_name = StringVal [], source_ref = None, source_driven = None,
      target_ref = None, target_driven = None, mult_matrix = None, decompose_matrix = None\<rparr>"

definition get_constraint_data :: "scene \<Rightarrow> name \<Rightarrow> error + constraint_data" where
  "get_constraint_data sc nn =
     seq (attributeQuery_exists sc ''displayName'' nn) (\<lambda>ex.
     seq (if ex then seq (getAttr sc nn ''displayName'')
                      (\<lambda>v. Inr ((initial_data nn)\<lparr>display_name := or_empty v\<rparr>))
          else Inr (initial_data nn)) (\<lambda>d.
     read_references sc nn attr_map d))"

subsection \<open>Metadata store: create\_constraint\_network\_node\<close>

text \<open>The separator of the display label, as the bytes of the source file's literal
  between the two braces (line 194): a space, eight non-ASCII bytes, a space.\<close>

definition label_separator :: string where
  "label_separator =
     [CHR '' '', CHR 0xC3, CHR 0xA2, CHR 0xE2, CHR 0x80, CHR 0xA0, CHR 0xE2, CHR 0x80, CHR 0x99, CHR '' '']"

definition display_label :: "name \<Rightarrow> name \<Rightarrow> string" where
  "display_label sd td = sd @ label_separator @ td"

definition message_attrs :: "string list" where
  "message_attrs =
     [''sourceRef'', ''sourceDriven'', ''targetRef'', ''targetDriven'',
      ''multMatrixNode'', ''decomposeMatrixNode'']"

fun add_message_attrs :: "scene \<Rightarrow> name \<Rightarrow> string list \<Rightarrow> error + scene" where
  "add_message_attrs sc nn [] = Inr sc"
| "add_message_attrs sc nn (a # as) =
     seq (addAttr sc nn a MessageVal) (\<lambda>sc'. add_message_attrs sc' nn as)"

fun connect_objects :: "scene \<Rightarrow> name \<Rightarrow> (name \<times> string) list \<Rightarrow> error + scene" where
  "connect_objects sc nn [] = Inr sc"
| "connect_objects sc nn ((obj, a) # rest) =
     seq (connectAttr sc (obj, ''message'') (nn, a)) (\<lambda>sc'. connect_objects sc' nn rest)"

definition create_constraint_network_node ::
  "scene \<Rightarrow> name \<Rightarrow> name \<Rightarrow> name \<Rightarrow> name \<Rightarrow> name \<Rightarrow> name \<Rightarrow> error + scene \<times> name" where
  "create_constraint_network_node sc sr sd tr td mm dm =
     seq (createNode sc ''network'' (NETWORK_NODE_PREFIX @ ''_data'')) (\<lambda>(sc1, nn).
     seq (addAttr sc1 nn NETWORK_NODE_IDENTIFIER (BoolVal False)) (\<lambda>sc2.
     seq (setAttr sc2 nn NETWORK_NODE_IDENTIFIER (BoolVal True)) (\<lambda>sc3.
     seq (addAttr sc3 nn ''displayName'' (StringVal [])) (\<lambda>sc4.
     seq (setAttr sc4 nn ''displayName'' (StringVal (display_label sd td))) (\<lambda>sc5.
     seq (add_message_attrs sc5 nn message_attrs) (\<lambda>sc6.
     seq (connect_objects sc6 nn
            [(sr, ''sourceRef''), (sd, ''sourceDriven''), (tr, ''targetRef''),
             (td, ''targetDriven''), (mm, ''multMatrixNode''), (dm, ''decomposeMatrixNode'')])
       (\<lambda>sc7. Inr (sc7, nn))))))))"

subsection \<open>Offset computation graph builder\<close>

definition create_relative_matrix_constraint ::
  "scene \<Rightarrow> name \<Rightarrow> name \<Rightarrow> name \<Rightarrow> name \<Rightarrow> error + scene \<times> name" where
  "create_relative_matrix_constraint sc sr sd tr td =
     seq (createNode sc ''multMatrix'' (NETWORK_NODE_PREFIX @ ''_multMatrix'')) (\<lambda>(sc1, mm).
     seq (connectAttr sc1 (sd, ''worldMatrix[0]'') (mm, ''matrixIn[0]'')) (\<lambda>sc2.
     seq (connectAttr sc2 (sr, ''worldInverseMatrix[0]'') (mm, ''matrixIn[1]'')) (\<lambda>sc3.
     seq (connectAttr sc3 (tr, ''worldMatrix[0]'') (mm, ''matrixIn[2]'')) (\<lambda>sc4.
     seq (listRelatives_parent sc4 td) (\<lambda>target_parent.
     seq (case target_parent of
            [] \<Rightarrow> Inr sc4
          | p # ps \<Rightarrow> connectAttr sc4 (p, ''worldInverseMatrix[0]'') (mm, ''matrixIn[3]'')) (\<lambda>sc5.
     seq (createNode sc5 ''decomposeMatrix'' (NETWORK_NODE_PREFIX @ ''_decomposeMatrix'')) (\<lambda>(sc6, dm).
     seq (connectAttr sc6 (mm, ''matrixSum'') (dm, ''inputMatrix'')) (\<lambda>sc7.
     seq (connectAttr sc7 (dm, ''outputTranslate'') (td, ''translate'')) (\<lambda>sc8.
     seq (connectAttr sc8 (dm, ''outputRotate'') (td, ''rotate'')) (\<lambda>sc9.
     create_constraint_network_node sc9 sr sd tr td mm dm))))))))))"

subsection \<open>Lifecycle: delete\_constraint\<close>

text \<open>Python truthiness of a dictionary entry that holds \<^verbatim>\<open>None\<close> or a name.\<close>

fun truthy :: "name option \<Rightarrow> bool" where
  "truthy None = False"
| "truthy (Some n) = (n \<noteq> [])"

text \<open>A guarded removal: \<^verbatim>\<open>if data[k] and cmds.objExists(data[k]): cmds.delete(data[k])\<close>.\<close>

definition delete_if_exists :: "scene \<Rightarrow> name option \<Rightarrow> error + scene" where
  "delete_if_exists sc r =
     (case r of None \<Rightarrow> Inr sc
      | Some n \<Rightarrow> if truthy (Some n) \<and> objExists sc n then delete sc n else Inr sc)"

text \<open>The result pairs the outcome with the scene at the moment of return or raise, which
  is what a caller's \<^verbatim>\<open>except\<close> clause goes on with.\<close>

definition delete_constraint :: "scene \<Rightarrow> name \<Rightarrow> (error + unit) \<times> scene" where
  "delete_constraint sc nn =
     (case get_constraint_data sc nn of
        Inl e \<Rightarrow> (Inl e, sc)
      | Inr d \<Rightarrow>
         (case delete_if_exists sc (decompose_matrix d) of
            Inl e \<Rightarrow> (Inl e, sc)
          | Inr sc1 \<Rightarrow>
             (case delete_if_exists sc1 (mult_matrix d) of
                Inl e \<Rightarrow> (Inl e, sc1)
              | Inr sc2 \<Rightarrow>
                 (if objExists sc2 nn
                  then (case delete sc2 nn of Inl e \<Rightarrow> (Inl e, sc2) | Inr sc3 \<Rightarrow> (Inr (), sc3))
                  else (Inr (), sc2)))))"


subsection \<open>Lifecycle: remove\_connections\_from\_target\<close>

definition target_attrs :: "string list" where
  "target_attrs = [''translate'', ''rotate'', ''tx'', ''ty'', ''tz'', ''rx'', ''ry'', ''rz'']"

definition scene_object_types :: "string list" where
  "scene_object_types = [''transform'', ''joint'', ''mesh'', ''nurbsCurve'', ''nurbsSurface'']"

text \<open>\<^verbatim>\<open>node_type.startswith('animCurve')\<close>\<close>

definition is_anim_curve :: "string \<Rightarrow> bool" where
  "is_anim_curve ty = (take 9 ty = ''animCurve'')"

text \<open>\<^verbatim>\<open>try: cmds.disconnectAttr(src, dest) except RuntimeError: pass\<close>\<close>

definition try_disconnect :: "scene \<Rightarrow> plug \<Rightarrow> plug \<Rightarrow> error + scene" where
  "try_disconnect sc s d =
     (case disconnectAttr sc s d of
        Inl RuntimeError \<Rightarrow> Inr sc
      | Inl e \<Rightarrow> Inl e
      | Inr sc' \<Rightarrow> Inr sc')"

text \<open>The inner loop over the pairs (dest plug, src plug) listed for one attribute. The
  state is the scene and the set \<^verbatim>\<open>nodes_to_delete\<close>, kept as a duplicate-free list.\<close>

fun process_connections ::
  "bool \<Rightarrow> (plug \<times> plug) list \<Rightarrow> scene \<times> name list \<Rightarrow> error + scene \<times> name list" where
  "process_connections keep [] st = Inr st"
| "process_connections keep ((dest_plug, src_plug) # rest) (sc, del) =
     seq (nodeType sc (fst src_plug)) (\<lambda>ty.
       if keep \<and> is_anim_curve ty then process_connections keep rest (sc, del)
       else
         seq (try_disconnect sc src_plug dest_plug) (\<lambda>sc1.
           if ty \<notin> set scene_object_types then
             (if ty = ''decomposeMatrix'' then
                seq (listConnections sc1 (fst src_plug, ''inputMatrix'')) (\<lambda>mult_conn.
                  process_connections keep rest
                    (sc1, case mult_conn of
                            [] \<Rightarrow> List.insert (fst src_plug) del
                          | m # ms \<Rightarrow> List.insert m (List.insert (fst src_plug) del)))
              else process_connections keep rest (sc1, List.insert (fst src_plug) del))
           else process_connections keep rest (sc1, del)))"

fun process_attrs ::
  "bool \<Rightarrow> name \<Rightarrow> string list \<Rightarrow> scene \<times> name list \<Rightarrow> error + scene \<times> name list" where
  "process_attrs keep target [] st = Inr st"
| "process_attrs keep target (a # as) (sc, del) =
     seq (listConnections_plugs sc (target, a)) (\<lambda>cs.
     seq (process_connections keep cs (sc, del)) (\<lambda>st'.
       process_attrs keep target as st'))"

text \<open>\<^verbatim>\<open>for node in nodes_to_delete: if cmds.objExists(node): try: cmds.delete(node)
  except RuntimeError: pass\<close>. The order in which Python walks the set is not fixed; the model
  walks the list.\<close>

fun delete_marked :: "name list \<Rightarrow> scene \<Rightarrow> error + scene" where
  "delete_marked [] sc = Inr sc"
| "delete_marked (n # ns) sc =
     (if objExists sc n
      then (case delete sc n of
              Inl RuntimeError \<Rightarrow> delete_marked ns sc
            | Inl e \<Rightarrow> Inl e
            | Inr sc' \<Rightarrow> delete_marked ns sc')
      else delete_marked ns sc)"

definition remove_connections_from_target :: "scene \<Rightarrow> name \<Rightarrow> bool \<Rightarrow> error + scene" where
  "remove_connections_from_target sc target keep_anim_curves =
     seq (process_attrs keep_anim_curves target target_attrs (sc, []))
       (\<lambda>(sc', nodes_to_delete). delete_marked nodes_to_delete sc')"

subsection \<open>Verification\<close>

text \<open>The host's matrix product, and its inverse by cofactors (the host leaves the inverse
  of a singular matrix open; division by the zero determinant gives the zero matrix here).\<close>

definition mat_mul :: "matrix \<Rightarrow> matrix \<Rightarrow> matrix" where
  "mat_mul a b = (\<lambda>i j. a i 0 * b 0 j + a i 1 * b 1 j + a i 2 * b 2 j + a i 3 * b 3 j)"

definition identity_matrix :: matrix where
  "identity_matrix = (\<lambda>i j. if i = j then 1 else 0)"

definition skip :: "nat \<Rightarrow> nat \<Rightarrow> nat" where
  "skip i k = (if k < i then k else Suc k)"

definition det3 :: "matrix \<Rightarrow> real" where
  "det3 m = m 0 0 * (m 1 1 * m 2 2 - m 1 2 * m 2 1)
          - m 0 1 * (m 1 0 * m 2 2 - m 1 2 * m 2 0)
          + m 0 2 * (m 1 0 * m 2 1 - m 1 1 * m 2 0)"

definition cofactor :: "matrix \<Rightarrow> nat \<Rightarrow> nat \<Rightarrow> real" where
  "cofactor m i j = (- 1) ^ (i + j) * det3 (\<lambda>r c. m (skip i r) (skip j c))"

definition det4 :: "matrix \<Rightarrow> real" where
  "det4 m = m 0 0 * cofactor m 0 0 + m 0 1 * cofactor m 0 1
          + m 0 2 * cofactor m 0 2 + m 0 3 * cofactor m 0 3"

definition mat_inverse :: "matrix \<Rightarrow> matrix" where
  "mat_inverse m = (\<lambda>i j. cofactor m j i / det4 m)"

text \<open>The local helper \<^verbatim>\<open>get_world_matrix\<close>: \<^verbatim>\<open>MSelectionList.add\<close> raises for a name that
  matches no object; \<^verbatim>\<open>MFnTransform(path).transformation().asMatrix()\<close> is the matrix of
  the transform node's own transformation, i.e. relative to its parent.\<close>

definition get_world_matrix :: "scene \<Rightarrow> name \<Rightarrow> error + matrix" where
  "get_world_matrix sc obj =
     (if objExists sc obj then Inr (transformation sc obj) else Inl RuntimeError)"

definition get_local_offset :: "scene \<Rightarrow> name \<Rightarrow> name \<Rightarrow> error + matrix" where
  "get_local_offset sc ref_obj driven_obj =
     seq (get_world_matrix sc ref_obj) (\<lambda>ref_matrix.
     seq (get_world_matrix sc driven_obj) (\<lambda>driven_matrix.
       Inr (mat_mul driven_matrix (mat_inverse ref_matrix))))"

text \<open>Python's \<^verbatim>\<open>max(a, b)\<close> keeps \<open>a\<close> unless \<open>b\<close> is greater.\<close>

definition py_max :: "real \<Rightarrow> real \<Rightarrow> real" where
  "py_max a b = (if b > a then b else a)"

definition max_diff_loop :: "matrix \<Rightarrow> matrix \<Rightarrow> real" where
  "max_diff_loop source_offset target_offset =
     fold (\<lambda>i acc. fold (\<lambda>j acc. py_max acc \<bar>source_offset i j - target_offset i j\<bar>) [0 ..< 4] acc)
       [0 ..< 4] 0"

definition verify_constraint ::
  "scene \<Rightarrow> name \<Rightarrow> name \<Rightarrow> name \<Rightarrow> name \<Rightarrow> real \<Rightarrow> error + bool \<times> real" where
  "verify_constraint sc sr sd tr td tolerance =
     seq (get_local_offset sc sr sd) (\<lambda>source_offset.
     seq (get_local_offset sc tr td) (\<lambda>target_offset.
       let max_diff = max_diff_loop source_offset target_offset
       in Inr (max_diff < tolerance, max_diff)))"

definition default_tolerance :: real where
  "default_tolerance = 1 / 1000"

text \<open>The host's world matrix of a DAG node (its \<^verbatim>\<open>worldMatrix[0]\<close> plug): the node's own
  transformation times the world matrix of its parent. The recursion up the parent chain
  is bounded by the number of nodes.\<close>

fun world_matrix_upto :: "nat \<Rightarrow> scene \<Rightarrow> name \<Rightarrow> matrix" where
  "world_matrix_upto 0 sc obj = transformation sc obj"
| "world_matrix_upto (Suc k) sc obj =
     (case lookup sc obj of
        None \<Rightarrow> transformation sc obj
      | Some nd \<Rightarrow>
         (case parent nd of
            None \<Rightarrow> transformation sc obj
          | Some p \<Rightarrow> mat_mul (transformation sc obj) (world_matrix_upto k sc p)))"

definition world_matrix :: "scene \<Rightarrow> name \<Rightarrow> matrix" where
  "world_matrix sc obj = world_matrix_upto (length (nodes sc)) sc obj"

text \<open>The relative offset of section 3 of the specification, on world matrices.\<close>

definition relative_offset :: "scene \<Rightarrow> name \<Rightarrow> name \<Rightarrow> matrix" where
  "relative_offset sc ref_obj driven_obj =
     mat_mul (world_matrix sc driven_obj) (mat_inverse (world_matrix sc ref_obj))"

subsection \<open>The dialog: baking one constraint\<close>

text \<open>The status line, one constructor per message of the methods modelled here:
  "Target object not found", "Baking <target>...", "Baked <target> and removed constraint",
  "Bake error: <exception>", "No constraints found in scene", "Found <count> constraint(s)".\<close>

datatype status =
    NoStatus
  | TargetNotFound
  | Baking name
  | BakedAndRemoved name
  | BakeError error
  | NoConstraintsFound
  | Found nat

record ui =
  start_frame_spin :: int
  end_frame_spin :: int
  constraints_list :: "(name \<times> attr_value) list"
  status_label :: status

text \<open>\<^verbatim>\<open>data['display_name'] or network_node\<close>\<close>

definition display_or_node :: "attr_value \<Rightarrow> name \<Rightarrow> attr_value" where
  "display_or_node v nn = (if v = StringVal [] \<or> v = BoolVal False then StringVal nn else v)"

text \<open>The loop of \<^verbatim>\<open>_refresh_constraint_list\<close>; when reading a record raises, the items
  appended so far stay in the list.\<close>

fun add_items :: "scene \<Rightarrow> name list \<Rightarrow> ui \<Rightarrow> (error + unit) \<times> ui" where
  "add_items sc [] u = (Inr (), u)"
| "add_items sc (nn # rest) u =
     (case get_constraint_data sc nn of
        Inl e \<Rightarrow> (Inl e, u)
      | Inr d \<Rightarrow>
          add_items sc rest
            (u\<lparr>constraints_list := constraints_list u @ [(nn, display_or_node (display_name d) nn)]\<rparr>))"

definition refresh_constraint_list :: "scene \<Rightarrow> ui \<Rightarrow> (error + unit) \<times> ui" where
  "refresh_constraint_list sc u =
     (let u0 = u\<lparr>constraints_list := []\<rparr> in
      case find_constraint_network_nodes sc of
        Inl e \<Rightarrow> (Inl e, u0)
      | Inr network_nodes \<Rightarrow>
         (case add_items sc network_nodes u0 of
            (Inl e, u1) \<Rightarrow> (Inl e, u1)
          | (Inr _, u1) \<Rightarrow>
              (Inr (), u1\<lparr>status_label :=
                 (if length network_nodes = 0 then NoConstraintsFound
                  else Found (length network_nodes))\<rparr>)))"

text \<open>\<^verbatim>\<open>_on_bake_single\<close>: reading the record is outside the \<^verbatim>\<open>try\<close>, so an exception there
  leaves the slot (\<open>Inl\<close>); everything after it is caught and reported on the status line.\<close>

definition on_bake_single :: "ui \<Rightarrow> scene \<Rightarrow> name \<Rightarrow> error + ui \<times> scene" where
  "on_bake_single u sc nn =
     seq (get_constraint_data sc nn) (\<lambda>d.
       case target_driven d of
         None \<Rightarrow> Inr (u\<lparr>status_label := TargetNotFound\<rparr>, sc)
       | Some target \<Rightarrow>
           if \<not> truthy (Some target) \<or> \<not> objExists sc target
           then Inr (u\<lparr>status_label := TargetNotFound\<rparr>, sc)
           else
             (let u1 = u\<lparr>status_label := Baking target\<rparr> in
              case bake_with_viewport_off target (start_frame_spin u) (end_frame_spin u) sc of
                (Inl e, sc1) \<Rightarrow> Inr (u1\<lparr>status_label := BakeError e\<rparr>, sc1)
              | (Inr _, sc1) \<Rightarrow>
                 (case delete_constraint sc1 nn of
                    (Inl e, sc2) \<Rightarrow> Inr (u1\<lparr>status_label := BakeError e\<rparr>, sc2)
                  | (Inr _, sc2) \<Rightarrow>
                     (let u2 = u1\<lparr>status_label := BakedAndRemoved target\<rparr> in
                      case refresh_constraint_list sc2 u2 of
                        (Inl e, u3) \<Rightarrow> Inr (u3\<lparr>status_label := BakeError e\<rparr>, sc2)
                      | (Inr _, u3) \<Rightarrow> Inr (u3, sc2)))))"


subsection \<open>Example scenes\<close>

text \<open>The scenario of the specification: hand1, prop1, hand2 at the root, prop2 parented
  under propGrp2; parallel evaluation is on.\<close>

definition transform_node :: "name option \<Rightarrow> node" where
  "transform_node p = \<lparr>node_type = ''transform'', parent = p, attrs = []\<rparr>"

definition example_scene :: scene where
  "example_scene =
     \<lparr>nodes = [(''hand1'', transform_node None), (''prop1'', transform_node None),
               (''hand2'', transform_node None), (''propGrp2'', transform_node None),
               (''prop2'', transform_node (Some ''propGrp2''))],
      conns = [], keys = [], transformation = (\<lambda>n. identity_matrix),
      eval_mode = ''parallel'', pane_managed = True, refresh_suspended = False,
      timeslider_visible = True\<rparr>"

text \<open>A scene with one network node that carries the marker, and the same scene with the
  marker's value switched off.\<close>

definition marked_scene :: "bool \<Rightarrow> scene" where
  "marked_scene b =
     example_scene\<lparr>nodes := nodes example_scene @
        [(''rec'', \<lparr>node_type = ''network'', parent = None,
                    attrs = [(NETWORK_NODE_IDENTIFIER, BoolVal b)]\<rparr>)]\<rparr>"

subsection \<open>Auxiliary notions for the proofs\<close>

text \<open>A scene extended by further nodes and connections; a scene is well formed when every
  connection joins two existing nodes (the host removes the connections of a deleted node).
  \<open>record_node\<close> and \<open>record_conns\<close> are what creating a record adds to a scene;
  \<open>graph_scene\<close> is the example scene after the builder has made its two computation nodes,
  \<open>built_scene\<close> the same after the record has been stored.\<close>

definition extend_scene :: "scene \<Rightarrow> (name \<times> node) list \<Rightarrow> (plug \<times> plug) list \<Rightarrow> scene" where
  "extend_scene sc ns cs = sc\<lparr>nodes := nodes sc @ ns, conns := conns sc @ cs\<rparr>"

definition wf_scene :: "scene \<Rightarrow> bool" where
  "wf_scene sc = (\<forall>(s, d) \<in> set (conns sc). objExists sc (fst s) \<and> objExists sc (fst d))"

definition record_node :: "name \<Rightarrow> name \<Rightarrow> node" where
  "record_node sd td =
     \<lparr>node_type = ''network'', parent = None,
      attrs = [(NETWORK_NODE_IDENTIFIER, BoolVal True),
               (''displayName'', StringVal (display_label sd td)),
               (''sourceRef'', MessageVal), (''sourceDriven'', MessageVal),
               (''targetRef'', MessageVal), (''targetDriven'', MessageVal),
               (''multMatrixNode'', MessageVal), (''decomposeMatrixNode'', MessageVal)]\<rparr>"

definition record_conns :: "name \<Rightarrow> name \<Rightarrow> name \<Rightarrow> name \<Rightarrow> name \<Rightarrow> name \<Rightarrow> name \<Rightarrow> (plug \<times> plug) list" where
  "record_conns nn sr sd tr td mm dm =
     [((sr, ''message''), (nn, ''sourceRef'')), ((sd, ''message''), (nn, ''sourceDriven'')),
      ((tr, ''message''), (nn, ''targetRef'')), ((td, ''message''), (nn, ''targetDriven'')),
      ((mm, ''message''), (nn, ''multMatrixNode'')),
      ((dm, ''message''), (nn, ''decomposeMatrixNode''))]"

definition graph_scene :: scene where
  "graph_scene =
     extend_scene example_scene
       [(''relMtxConstraint_multMatrix1'', \<lparr>node_type = ''multMatrix'', parent = None, attrs = []\<rparr>),
        (''relMtxConstraint_decomposeMatrix1'',
           \<lparr>node_type = ''decomposeMatrix'', parent = None, attrs = []\<rparr>)]
       [((''prop1'', ''worldMatrix[0]''), (''relMtxConstraint_multMatrix1'', ''matrixIn[0]'')),
        ((''hand1'', ''worldInverseMatrix[0]''), (''relMtxConstraint_multMatrix1'', ''matrixIn[1]'')),
        ((''hand2'', ''worldMatrix[0]''), (''relMtxConstraint_multMatrix1'', ''matrixIn[2]'')),
        ((''propGrp2'', ''worldInverseMatrix[0]''), (''relMtxConstraint_multMatrix1'', ''matrixIn[3]'')),
        ((''relMtxConstraint_multMatrix1'', ''matrixSum''),
           (''relMtxConstraint_decomposeMatrix1'', ''inputMatrix'')),
        ((''relMtxConstraint_decomposeMatrix1'', ''outputTranslate''), (''prop2'', ''translate'')),
        ((''relMtxConstraint_decomposeMatrix1'', ''outputRotate''), (''prop2'', ''rotate''))]"

definition built_scene :: scene where
  "built_scene =
     extend_scene graph_scene
       [(''relMtxConstraint_data1'', record_node ''prop1'' ''prop2'')]
       (record_conns ''relMtxConstraint_data1'' ''hand1'' ''prop1'' ''hand2'' ''prop2''
          ''relMtxConstraint_multMatrix1'' ''relMtxConstraint_decomposeMatrix1'')"

text \<open>What \<^verbatim>\<open>cmds.delete\<close> leaves of a scene; \<open>drop_node\<close> and \<open>after_delete\<close> are the scenes
  left by one guarded removal and by a whole \<^verbatim>\<open>delete_constraint\<close> that read the record \<open>d\<close>.\<close>

definition without :: "scene \<Rightarrow> name \<Rightarrow> scene" where
  "without sc n =
     sc\<lparr>nodes := filter (\<lambda>(k, nd). k \<noteq> n) (nodes sc),
        conns := filter (\<lambda>(s, d). fst s \<noteq> n \<and> fst d \<noteq> n) (conns sc),
        keys := filter (\<lambda>(p, f). fst p \<noteq> n) (keys sc)\<rparr>"

definition drop_node :: "scene \<Rightarrow> name option \<Rightarrow> scene" where
  "drop_node sc r =
     (case r of None \<Rightarrow> sc
      | Some n \<Rightarrow> if n \<noteq> [] \<and> objExists sc n then without sc n else sc)"

definition after_delete :: "scene \<Rightarrow> name \<Rightarrow> constraint_data \<Rightarrow> scene" where
  "after_delete sc nn d =
     (let sc2 = drop_node (drop_node sc (decompose_matrix d)) (mult_matrix d)
      in if objExists sc2 nn then without sc2 nn else sc2)"

text \<open>A reference attribute of a record is unresolved when the record node or the attribute
  is gone, or when nothing is connected to the attribute any more; a record read back is
  incomplete when one of its six reference fields is none. \<open>reference\<close> is the first name
  that \<^verbatim>\<open>listConnections\<close> reports at an attribute of the record node \<open>nd\<close>, and
  \<open>stored_label\<close> the label read from it.\<close>

definition unresolved :: "scene \<Rightarrow> name \<Rightarrow> string \<Rightarrow> bool" where
  "unresolved sc nn a =
     (case lookup sc nn of
        None \<Rightarrow> True
      | Some nd \<Rightarrow> map_of (attrs nd) a = None \<or> (incoming sc (nn, a) = [] \<and> outgoing sc (nn, a) = []))"

definition incomplete :: "constraint_data \<Rightarrow> bool" where
  "incomplete d =
     (source_ref d = None \<or> source_driven d = None \<or> target_ref d = None \<or>
      target_driven d = None \<or> mult_matrix d = None \<or> decompose_matrix d = None)"

definition first_connection :: "scene \<Rightarrow> plug \<Rightarrow> name option" where
  "first_connection sc p =
     (case map (\<lambda>(s, d). fst s) (incoming sc p) @ map (\<lambda>(s, d). fst d) (outgoing sc p) of
        [] \<Rightarrow> None | c # cs \<Rightarrow> Some c)"

definition reference :: "scene \<Rightarrow> node \<Rightarrow> name \<Rightarrow> string \<Rightarrow> name option" where
  "reference sc nd nn a = (if map_of (attrs nd) a = None then None else first_connection sc (nn, a))"

definition stored_label :: "node \<Rightarrow> attr_value" where
  "stored_label nd =
     (case map_of (attrs nd) ''displayName'' of None \<Rightarrow> StringVal [] | Some v \<Rightarrow> or_empty v)"

section \<open>Basic facts about the host commands\<close>

lemma seq_Inr [simp]: "seq (Inr x) f = f x"
  by (simp add: seq_def)

lemma seq_Inl [simp]: "seq (Inl e) f = Inl e"
  by (simp add: seq_def)

lemma lookup_in_names: "lookup sc n = Some nd \<Longrightarrow> n \<in> set (node_names sc)"
  by (auto simp: lookup_def node_names_def dest: map_of_SomeD intro: rev_image_eqI)

lemma lookup_update_node:
  "lookup (update_node sc n f) m = (if m = n then map_option f (lookup sc n) else lookup sc m)"
proof -
  have "map_of (map (\<lambda>(k, nd). if k = n then (k, f nd) else (k, nd)) xs) m
        = (if m = n then map_option f (map_of xs n) else map_of xs m)" for xs
    by (induction xs) auto
  then show ?thesis by (simp add: lookup_def update_node_def)
qed

lemma node_names_update_node [simp]: "node_names (update_node sc n f) = node_names sc"
  by (auto simp: node_names_def update_node_def)

lemma map_of_set_value:
  "(map_of (map (\<lambda>(k, w). if k = a then (k, v) else (k, w)) xs) b \<noteq> None) = (map_of xs b \<noteq> None)"
  by (induction xs) (auto split: if_splits)

subsection \<open>Host-assigned names are fresh\<close>

lemma digit_char_inj: "a < 10 \<Longrightarrow> b < 10 \<Longrightarrow> digit_char a = digit_char b \<Longrightarrow> a = b"
proof -
  assume a: "a < 10" and b: "b < 10" and e: "digit_char a = digit_char b"
  have d: "distinct ''0123456789''" by simp
  have l: "length ''0123456789'' = 10" by simp
  from e have "''0123456789'' ! a = ''0123456789'' ! b" by (simp add: digit_char_def)
  with d a b l show "a = b" by (metis nth_eq_iff_index_eq)
qed

lemma str_nat_nonempty: "str_nat n \<noteq> []"
  by (subst str_nat.simps) simp

lemma str_nat_inj: "str_nat n = str_nat m \<Longrightarrow> n = m"
proof (induction n arbitrary: m rule: str_nat.induct)
  case (1 n)
  show ?case
  proof (cases "n < 10")
    case True
    note n = this
    show ?thesis
    proof (cases "m < 10")
      case True
      with n "1.prems" show ?thesis
        by (auto simp: str_nat.simps [of n] str_nat.simps [of m] dest: digit_char_inj)
    next
      case False
      with n "1.prems" str_nat_nonempty [of "m div 10"] show ?thesis
        by (auto simp: str_nat.simps [of n] str_nat.simps [of m] append_eq_Cons_conv)
    qed
  next
    case False
    note n = this
    show ?thesis
    proof (cases "m < 10")
      case True
      with n "1.prems" str_nat_nonempty [of "n div 10"] show ?thesis
        by (auto simp: str_nat.simps [of n] str_nat.simps [of m] Cons_eq_append_conv)
    next
      case False
      with n "1.prems" have e: "str_nat (n div 10) = str_nat (m div 10)"
        and d: "digit_char (n mod 10) = digit_char (m mod 10)"
        by (auto simp: str_nat.simps [of n] str_nat.simps [of m])
      from "1.IH" [OF n e] have "n div 10 = m div 10" .
      moreover from d have "n mod 10 = m mod 10" by (auto dest!: digit_char_inj [rotated 2])
      ultimately show ?thesis by (metis div_mult_mod_eq)
    qed
  qed
qed

lemma unique_name_total: "\<exists>n. unique_name sc prefix = Some n"
proof (rule ccontr)
  assume "\<not> ?thesis"
  then have none: "find (\<lambda>i. prefix @ str_nat i \<notin> set (node_names sc)) [1 ..< length (nodes sc) + 2] = None"
    by (auto simp: unique_name_def)
  let ?f = "\<lambda>i. prefix @ str_nat i"
  let ?I = "{1 ..< length (nodes sc) + 2}"
  from none have "\<forall>i \<in> set [1 ..< length (nodes sc) + 2]. ?f i \<in> set (node_names sc)"
    unfolding find_None_iff by blast
  moreover have "set [1 ..< length (nodes sc) + 2] = ?I" by (rule set_upt)
  ultimately have sub: "?f ` ?I \<subseteq> set (node_names sc)"
    by blast
  have "inj_on ?f ?I" by (auto simp: inj_on_def dest: str_nat_inj)
  then have "card (?f ` ?I) = length (nodes sc) + 1" by (simp add: card_image)
  moreover have "card (?f ` ?I) \<le> card (set (node_names sc))"
    using sub by (intro card_mono) auto
  moreover have "card (set (node_names sc)) \<le> length (nodes sc)"
    using card_length [of "node_names sc"] by (simp add: node_names_def)
  ultimately show False by simp
qed

lemma unique_name_fresh: "unique_name sc prefix = Some n \<Longrightarrow> lookup sc n = None"
  by (auto simp: unique_name_def lookup_def node_names_def map_of_eq_None_iff find_Some_iff)

section \<open>The metadata store\<close>

lemma extend_nil [simp]: "extend_scene sc [] [] = sc"
  by (simp add: extend_scene_def)

lemma extend_extend [simp]: "extend_scene (extend_scene sc ns cs) ns' cs' = extend_scene sc (ns @ ns') (cs @ cs')"
  by (simp add: extend_scene_def)

lemma nodes_extend [simp]: "nodes (extend_scene sc ns cs) = nodes sc @ ns"
  and conns_extend [simp]: "conns (extend_scene sc ns cs) = conns sc @ cs"
  and keys_extend [simp]: "keys (extend_scene sc ns cs) = keys sc"
  by (simp_all add: extend_scene_def)

lemma lookup_extend:
  "lookup (extend_scene sc ns cs) m = (case lookup sc m of None \<Rightarrow> map_of ns m | Some nd \<Rightarrow> Some nd)"
  by (simp add: lookup_def extend_scene_def map_add_def)

lemma conns_update_extend [simp]:
  "(extend_scene sc ns cs)\<lparr>conns := conns sc @ cs @ cs'\<rparr> = extend_scene sc ns (cs @ cs')"
  by (simp add: extend_scene_def)

lemma update_node_extend:
  assumes "lookup sc n = None"
  shows "update_node (extend_scene sc ns cs) n f
           = extend_scene sc (map (\<lambda>(k, nd). if k = n then (k, f nd) else (k, nd)) ns) cs"
proof -
  from assms have "n \<notin> fst ` set (nodes sc)"
    by (simp add: lookup_def map_of_eq_None_iff)
  then have "map (\<lambda>(k, nd). if k = n then (k, f nd) else (k, nd)) (nodes sc) = nodes sc"
    by (intro map_idI) (force simp: image_iff)
  then show ?thesis by (simp add: update_node_def extend_scene_def)
qed

lemma createNode_extend:
  obtains n where "createNode sc ty p = Inr (extend_scene sc [(n, \<lparr>node_type = ty, parent = None, attrs = []\<rparr>)] [], n)"
    and "lookup sc n = None"
proof -
  from unique_name_total obtain n where n: "unique_name sc p = Some n" by blast
  then have "lookup sc n = None" by (rule unique_name_fresh)
  moreover from n have "createNode sc ty p = Inr (extend_scene sc [(n, \<lparr>node_type = ty, parent = None, attrs = []\<rparr>)] [], n)"
    by (simp add: createNode_def extend_scene_def)
  ultimately show ?thesis using that by blast
qed

lemma incoming_extend [simp]:
  "incoming (extend_scene sc ns cs) p = incoming sc p @ filter (\<lambda>(s, d). d = p) cs"
  by (simp add: incoming_def)

lemma outgoing_extend [simp]:
  "outgoing (extend_scene sc ns cs) p = outgoing sc p @ filter (\<lambda>(s, d). s = p) cs"
  by (simp add: outgoing_def)

lemma wf_fresh_incoming: "wf_scene sc \<Longrightarrow> lookup sc n = None \<Longrightarrow> incoming sc (n, a) = []"
  by (auto simp: wf_scene_def incoming_def objExists_def filter_empty_conv)

lemma wf_fresh_outgoing: "wf_scene sc \<Longrightarrow> lookup sc n = None \<Longrightarrow> outgoing sc (n, a) = []"
  by (auto simp: wf_scene_def outgoing_def objExists_def filter_empty_conv)

lemma addAttr_new:
  assumes "lookup sc n = None"
  shows "addAttr (extend_scene sc [(n, nd)] cs) n a v =
           (if map_of (attrs nd) a \<noteq> None then Inl RuntimeError
            else Inr (extend_scene sc [(n, nd\<lparr>attrs := attrs nd @ [(a, v)]\<rparr>)] cs))"
  using assms by (simp add: addAttr_def lookup_extend update_node_extend)

lemma setAttr_new:
  assumes "lookup sc n = None"
  shows "setAttr (extend_scene sc [(n, nd)] cs) n a v =
           (if map_of (attrs nd) a = None then Inl RuntimeError
            else Inr (extend_scene sc [(n, nd\<lparr>attrs := map (\<lambda>(k, w). if k = a then (k, v) else (k, w)) (attrs nd)\<rparr>)] cs))"
  using assms by (simp add: setAttr_def lookup_extend update_node_extend)

lemma connectAttr_new:
  assumes "wf_scene sc" "lookup sc n = None" "objExists sc obj"
  shows "connectAttr (extend_scene sc [(n, nd)] cs) (obj, b) (n, a) =
           (if filter (\<lambda>(s, d). d = (n, a)) cs \<noteq> [] then Inl RuntimeError
            else Inr (extend_scene sc [(n, nd)] (cs @ [((obj, b), (n, a))])))"
  using assms
  by (auto simp: connectAttr_def objExists_def lookup_extend wf_fresh_incoming)

lemma step_attrs:
  assumes fresh: "lookup sc nn = None"
  shows "seq (addAttr (extend_scene sc [(nn, \<lparr>node_type = ''network'', parent = None, attrs = []\<rparr>)] []) nn NETWORK_NODE_IDENTIFIER (BoolVal False)) (\<lambda>sc2.
     seq (setAttr sc2 nn NETWORK_NODE_IDENTIFIER (BoolVal True)) (\<lambda>sc3.
     seq (addAttr sc3 nn ''displayName'' (StringVal [])) (\<lambda>sc4.
     seq (setAttr sc4 nn ''displayName'' (StringVal (display_label sd td))) (\<lambda>sc5.
     seq (add_message_attrs sc5 nn message_attrs) k))))
    = k (extend_scene sc [(nn, record_node sd td)] [])"
  by (simp add: addAttr_new [OF fresh] setAttr_new [OF fresh] message_attrs_def
        NETWORK_NODE_IDENTIFIER_def record_node_def)

lemma create_constraint_network_node_result:
  assumes wf: "wf_scene sc"
    and ex: "objExists sc sr" "objExists sc sd" "objExists sc tr" "objExists sc td"
            "objExists sc mm" "objExists sc dm"
  obtains nn where "lookup sc nn = None"
    and "create_constraint_network_node sc sr sd tr td mm dm
           = Inr (extend_scene sc [(nn, record_node sd td)] (record_conns nn sr sd tr td mm dm), nn)"
proof -
  obtain nn where cr: "createNode sc ''network'' (NETWORK_NODE_PREFIX @ ''_data'')
       = Inr (extend_scene sc [(nn, \<lparr>node_type = ''network'', parent = None, attrs = []\<rparr>)] [], nn)"
    and fresh: "lookup sc nn = None"
    by (rule createNode_extend)
  from ex fresh have ne: "sr \<noteq> nn" "sd \<noteq> nn" "tr \<noteq> nn" "td \<noteq> nn" "mm \<noteq> nn" "dm \<noteq> nn"
    by (auto simp: objExists_def)
  from ex obtain a b c d e f where lk: "lookup sc sr = Some a" "lookup sc sd = Some b"
     "lookup sc tr = Some c" "lookup sc td = Some d" "lookup sc mm = Some e" "lookup sc dm = Some f"
    by (auto simp: objExists_def)
  have "create_constraint_network_node sc sr sd tr td mm dm
           = Inr (extend_scene sc [(nn, record_node sd td)] (record_conns nn sr sd tr td mm dm), nn)"
    unfolding create_constraint_network_node_def cr
    by (simp add: step_attrs [OF fresh] connectAttr_new [OF wf fresh] ex record_conns_def)
  with fresh show ?thesis using that by blast
qed

lemma get_constraint_data_created:
  assumes wf: "wf_scene sc" and fresh: "lookup sc nn = None"
  shows "get_constraint_data (extend_scene sc [(nn, record_node sd td)] (record_conns nn sr sd tr td mm dm)) nn
     = Inr \<lparr>network_node = nn, display_name = StringVal (display_label sd td),
            source_ref = Some sr, source_driven = Some sd, target_ref = Some tr,
            target_driven = Some td, mult_matrix = Some mm, decompose_matrix = Some dm\<rparr>"
  by (simp add: get_constraint_data_def attributeQuery_exists_def getAttr_def lookup_extend fresh
      record_node_def NETWORK_NODE_IDENTIFIER_def initial_data_def attr_map_def read_reference_def
      listConnections_def objExists_def wf_fresh_incoming [OF wf fresh]
      wf_fresh_outgoing [OF wf fresh] record_conns_def)

text \<open>
  Claim C2. In a well-formed scene in which the six referenced objects exist, creating a
  record succeeds, and reading the created record back yields the four participants and
  the two computation nodes that were passed in, field by field.
\<close>

theorem create_read_round_trip:
  assumes "wf_scene sc"
    and "objExists sc a" "objExists sc b" "objExists sc c" "objExists sc d"
        "objExists sc m" "objExists sc n"
  shows "\<exists>sc' nn rec. create_constraint_network_node sc a b c d m n = Inr (sc', nn) \<and>
           get_constraint_data sc' nn = Inr rec \<and>
           source_ref rec = Some a \<and> source_driven rec = Some b \<and>
           target_ref rec = Some c \<and> target_driven rec = Some d \<and>
           mult_matrix rec = Some m \<and> decompose_matrix rec = Some n"
proof -
  from assms obtain nn where fresh: "lookup sc nn = None"
    and cr: "create_constraint_network_node sc a b c d m n
           = Inr (extend_scene sc [(nn, record_node b d)] (record_conns nn a b c d m n), nn)"
    by (rule create_constraint_network_node_result)
  show ?thesis
    unfolding cr using get_constraint_data_created [OF assms(1) fresh, of b d a c m n]
    by simp
qed

lemma str_nat_1: "str_nat 1 = ''1''"
  by (simp add: str_nat.simps digit_char_def)

lemma nodes_example: "map fst (nodes example_scene) = [''hand1'', ''prop1'', ''hand2'', ''propGrp2'', ''prop2'']"
  by (simp add: example_scene_def)

lemma names_graph: "node_names graph_scene = [''hand1'', ''prop1'', ''hand2'', ''propGrp2'', ''prop2'',
    ''relMtxConstraint_multMatrix1'', ''relMtxConstraint_decomposeMatrix1'']"
  by (simp add: graph_scene_def node_names_def nodes_example)

lemma wf_graph: "wf_scene graph_scene"
  by (simp add: wf_scene_def graph_scene_def example_scene_def objExists_def lookup_extend lookup_def transform_node_def)

lemma unique_name_first:
  assumes "prefix @ ''1'' \<notin> set (node_names sc)"
  shows "unique_name sc prefix = Some (prefix @ ''1'')"
proof -
  have e: "[1 ..< length (nodes sc) + 2] = 1 # [Suc 1 ..< length (nodes sc) + 2]"
    by (rule upt_conv_Cons) simp
  have p: "prefix @ str_nat 1 \<notin> set (node_names sc)"
    unfolding str_nat_1 by (rule assms)
  show ?thesis
    unfolding unique_name_def e by (simp only: find.simps assms p if_True not_False_eq_True option.map str_nat_1)
qed

lemma createNode_graph:
  "createNode graph_scene ''network'' (NETWORK_NODE_PREFIX @ ''_data'')
     = Inr (extend_scene graph_scene [(''relMtxConstraint_data1'', \<lparr>node_type = ''network'', parent = None, attrs = []\<rparr>)] [],
            ''relMtxConstraint_data1'')"
  by (simp add: createNode_def unique_name_first names_graph NETWORK_NODE_PREFIX_def extend_scene_def)

lemma fresh_graph: "lookup graph_scene ''relMtxConstraint_data1'' = None"
  using names_graph by (simp add: lookup_def map_of_eq_None_iff node_names_def flip: set_map)

lemma exists_graph:
  "objExists graph_scene ''hand1''" "objExists graph_scene ''prop1''"
  "objExists graph_scene ''hand2''" "objExists graph_scene ''prop2''"
  "objExists graph_scene ''relMtxConstraint_multMatrix1''"
  "objExists graph_scene ''relMtxConstraint_decomposeMatrix1''"
  by (simp_all add: objExists_def graph_scene_def example_scene_def lookup_extend lookup_def)

lemma create_graph:
  "create_constraint_network_node graph_scene ''hand1'' ''prop1'' ''hand2'' ''prop2''
       ''relMtxConstraint_multMatrix1'' ''relMtxConstraint_decomposeMatrix1''
     = Inr (built_scene, ''relMtxConstraint_data1'')"
  unfolding create_constraint_network_node_def createNode_graph built_scene_def
  by (simp add: step_attrs [OF fresh_graph] connectAttr_new [OF wf_graph fresh_graph]
        exists_graph record_conns_def)

theorem create_read_round_trip_witness:
  "create_constraint_network_node graph_scene ''hand1'' ''prop1'' ''hand2'' ''prop2''
       ''relMtxConstraint_multMatrix1'' ''relMtxConstraint_decomposeMatrix1''
     = Inr (built_scene, ''relMtxConstraint_data1'')
   \<and> get_constraint_data built_scene ''relMtxConstraint_data1''
     = Inr \<lparr>network_node = ''relMtxConstraint_data1'',
            display_name = StringVal (display_label ''prop1'' ''prop2''),
            source_ref = Some ''hand1'', source_driven = Some ''prop1'',
            target_ref = Some ''hand2'', target_driven = Some ''prop2'',
            mult_matrix = Some ''relMtxConstraint_multMatrix1'',
            decompose_matrix = Some ''relMtxConstraint_decomposeMatrix1''\<rparr>"
proof -
  from create_read_round_trip [OF wf_graph exists_graph]
  obtain sc' nn r where
    "create_constraint_network_node graph_scene ''hand1'' ''prop1'' ''hand2'' ''prop2''
       ''relMtxConstraint_multMatrix1'' ''relMtxConstraint_decomposeMatrix1'' = Inr (sc', nn)"
    and "get_constraint_data sc' nn = Inr r"
    and "source_ref r = Some ''hand1''" "source_driven r = Some ''prop1''"
        "target_ref r = Some ''hand2''" "target_driven r = Some ''prop2''"
        "mult_matrix r = Some ''relMtxConstraint_multMatrix1''"
        "decompose_matrix r = Some ''relMtxConstraint_decomposeMatrix1''"
    by blast
  then show ?thesis
    using get_constraint_data_created [OF wf_graph fresh_graph, of "''prop1''" "''prop2''"
       "''hand1''" "''hand2''" "''relMtxConstraint_multMatrix1''" "''relMtxConstraint_decomposeMatrix1''"]
    by (simp add: create_graph built_scene_def)
qed

text \<open>
  Claim C7, as amended. The stored display label is the name of source_driven, then the
  separator literal of the source file, then the name of target_driven. The separator is
  a space, a non-ASCII arrow literal and a space; it is not the ASCII text " -> ".
\<close>

theorem display_label_stored:
  assumes "wf_scene sc"
    and "objExists sc sr" "objExists sc sd" "objExists sc tr" "objExists sc td"
        "objExists sc mm" "objExists sc dm"
  shows "\<exists>sc' nn. create_constraint_network_node sc sr sd tr td mm dm = Inr (sc', nn) \<and>
           getAttr sc' nn ''displayName'' = Inr (StringVal (sd @ label_separator @ td))"
proof -
  from assms obtain nn where fresh: "lookup sc nn = None"
    and cr: "create_constraint_network_node sc sr sd tr td mm dm
           = Inr (extend_scene sc [(nn, record_node sd td)] (record_conns nn sr sd tr td mm dm), nn)"
    by (rule create_constraint_network_node_result)
  show ?thesis
    unfolding cr
    by (simp add: getAttr_def lookup_extend fresh record_node_def NETWORK_NODE_IDENTIFIER_def
          display_label_def)
qed

theorem display_label_stored_witness:
  "create_constraint_network_node graph_scene ''hand1'' ''prop1'' ''hand2'' ''prop2''
       ''relMtxConstraint_multMatrix1'' ''relMtxConstraint_decomposeMatrix1''
     = Inr (built_scene, ''relMtxConstraint_data1'')
   \<and> getAttr built_scene ''relMtxConstraint_data1'' ''displayName''
     = Inr (StringVal (''prop1'' @ label_separator @ ''prop2''))"
  using display_label_stored [OF wf_graph exists_graph]
  by (simp add: create_graph)

text \<open>For prop1 and prop2 the stored label is not the text "prop1 -> prop2".\<close>

theorem display_label_not_ascii_arrow:
  "create_constraint_network_node graph_scene ''hand1'' ''prop1'' ''hand2'' ''prop2''
       ''relMtxConstraint_multMatrix1'' ''relMtxConstraint_decomposeMatrix1''
     = Inr (built_scene, ''relMtxConstraint_data1'')
   \<and> getAttr built_scene ''relMtxConstraint_data1'' ''displayName''
     \<noteq> Inr (StringVal ''prop1 -> prop2'')"
  by (simp add: create_graph built_scene_def getAttr_def lookup_extend fresh_graph record_node_def
        NETWORK_NODE_IDENTIFIER_def display_label_def label_separator_def)

section \<open>Registry discovery\<close>

lemma collect_existing:
  "\<forall>n \<in> set ns. lookup sc n \<noteq> None \<Longrightarrow>
   collect_constraint_nodes sc ns =
     Inr (filter (\<lambda>n. \<exists>nd. lookup sc n = Some nd \<and> map_of (attrs nd) NETWORK_NODE_IDENTIFIER \<noteq> None) ns)"
  by (induction ns) (auto simp: attributeQuery_exists_def split: option.splits)

lemma ls_type_exists: "n \<in> set (ls_type sc ty) \<Longrightarrow> lookup sc n \<noteq> None"
  by (auto simp: ls_type_def split: option.splits)

lemma find_constraint_network_nodes_eq:
  "find_constraint_network_nodes sc =
     Inr (filter (\<lambda>n. \<exists>nd. lookup sc n = Some nd \<and> map_of (attrs nd) NETWORK_NODE_IDENTIFIER \<noteq> None)
            (ls_type sc ''network''))"
  unfolding find_constraint_network_nodes_def
  by (rule collect_existing) (auto dest: ls_type_exists)

lemma find_after_setAttr:
  assumes "setAttr sc n a v = Inr sc'"
  shows "find_constraint_network_nodes sc' = find_constraint_network_nodes sc"
proof -
  from assms obtain nd where nd: "lookup sc n = Some nd"
    and sc': "sc' = update_node sc n
                 (\<lambda>nd. nd\<lparr>attrs := map (\<lambda>(k, w). if k = a then (k, v) else (k, w)) (attrs nd)\<rparr>)"
    by (auto simp: setAttr_def split: option.splits if_splits)
  have ty: "ls_type sc' ty = ls_type sc ty" for ty
    unfolding ls_type_def sc' by (auto simp: lookup_update_node nd intro!: filter_cong)
  have "(\<exists>nd. lookup sc' m = Some nd \<and> map_of (attrs nd) NETWORK_NODE_IDENTIFIER \<noteq> None)
      = (\<exists>nd. lookup sc m = Some nd \<and> map_of (attrs nd) NETWORK_NODE_IDENTIFIER \<noteq> None)" for m
    using map_of_set_value [of a v "attrs nd" NETWORK_NODE_IDENTIFIER]
    unfolding sc' by (auto simp: lookup_update_node nd)
  then show ?thesis
    by (simp add: find_constraint_network_nodes_eq ty)
qed

text \<open>
  Claim C10. Discovery returns exactly the nodes of type network on which the marker
  attribute exists: the stored boolean is never read. Hence setting the marker of any node
  to any value, False included, leaves the list as it was.
\<close>

theorem discovery_ignores_marker_value:
  "(\<exists>ns. find_constraint_network_nodes sc = Inr ns \<and>
          (\<forall>n. n \<in> set ns \<longleftrightarrow>
                (\<exists>nd. lookup sc n = Some nd \<and> node_type nd = ''network'' \<and>
                      map_of (attrs nd) NETWORK_NODE_IDENTIFIER \<noteq> None)))
   \<and> (\<forall>n b sc'. setAttr sc n NETWORK_NODE_IDENTIFIER (BoolVal b) = Inr sc' \<longrightarrow>
          find_constraint_network_nodes sc' = find_constraint_network_nodes sc)"
proof (intro conjI allI impI)
  show "\<exists>ns. find_constraint_network_nodes sc = Inr ns \<and>
          (\<forall>n. n \<in> set ns \<longleftrightarrow>
                (\<exists>nd. lookup sc n = Some nd \<and> node_type nd = ''network'' \<and>
                      map_of (attrs nd) NETWORK_NODE_IDENTIFIER \<noteq> None))"
    by (auto simp: find_constraint_network_nodes_eq ls_type_def dest: lookup_in_names)
next
  fix n b sc'
  assume "setAttr sc n NETWORK_NODE_IDENTIFIER (BoolVal b) = Inr sc'"
  then show "find_constraint_network_nodes sc' = find_constraint_network_nodes sc"
    by (rule find_after_setAttr)
qed

theorem discovery_ignores_marker_value_witness:
  "setAttr (marked_scene True) ''rec'' NETWORK_NODE_IDENTIFIER (BoolVal False)
     = Inr (marked_scene False)
   \<and> getAttr (marked_scene False) ''rec'' NETWORK_NODE_IDENTIFIER = Inr (BoolVal False)
   \<and> find_constraint_network_nodes (marked_scene False) = Inr [''rec'']"
proof -
  have set: "setAttr (marked_scene True) ''rec'' NETWORK_NODE_IDENTIFIER (BoolVal False)
               = Inr (marked_scene False)"
    by (simp add: setAttr_def marked_scene_def example_scene_def lookup_def update_node_def
          transform_node_def NETWORK_NODE_IDENTIFIER_def)
  have before: "find_constraint_network_nodes (marked_scene True) = Inr [''rec'']"
    by (simp add: find_constraint_network_nodes_def ls_type_def marked_scene_def
          example_scene_def lookup_def node_names_def transform_node_def
          attributeQuery_exists_def NETWORK_NODE_IDENTIFIER_def)
  have get: "getAttr (marked_scene False) ''rec'' NETWORK_NODE_IDENTIFIER = Inr (BoolVal False)"
    by (simp add: getAttr_def marked_scene_def example_scene_def lookup_def
          transform_node_def NETWORK_NODE_IDENTIFIER_def)
  from discovery_ignores_marker_value [of "marked_scene True"] set
  have "find_constraint_network_nodes (marked_scene False)
          = find_constraint_network_nodes (marked_scene True)"
    by blast
  with set before get show ?thesis by simp
qed

section \<open>The viewport guard\<close>

text \<open>
  Claim C9. Whatever the wrapped function does, and whether it returns or raises, the scene
  left by the decorator has redraw resumed, the time slider visible and the main pane
  managed; and when parallel evaluation was on at entry, it is on again at exit.
\<close>

theorem viewport_off_restores:
  "case viewport_off func sc of (r, sc') \<Rightarrow>
     \<not> refresh_suspended sc' \<and> timeslider_visible sc' \<and> pane_managed sc' \<and>
     (eval_mode sc = ''parallel'' \<longrightarrow> eval_mode sc' = ''parallel'')"
  by (simp add: viewport_off_def Let_def split: prod.splits
        add: evaluationManager_query_def evaluationManager_mode_def paneLayout_manage_def
             refresh_suspend_def setTimeSliderVisible_def)

theorem viewport_off_restores_witness:
  "eval_mode example_scene = ''parallel'' \<and>
   (case viewport_off (bake_body ''ghost'' 1 3) example_scene of (r, sc') \<Rightarrow>
      r = Inl ValueError \<and> \<not> refresh_suspended sc' \<and> timeslider_visible sc' \<and>
      pane_managed sc' \<and> eval_mode sc' = ''parallel'')"
  using viewport_off_restores [where func = "bake_body ''ghost'' 1 3" and sc = example_scene]
  by (simp add: example_scene_def viewport_off_def bake_body_def bakeResults_def objExists_def
      lookup_def evaluationManager_query_def evaluationManager_mode_def paneLayout_manage_def
      refresh_suspend_def setTimeSliderVisible_def transform_node_def split: prod.splits)

section \<open>Reading a record\<close>

lemma read_reference_eq:
  "lookup sc nn = Some nd \<Longrightarrow> read_reference sc nn a = Inr (reference sc nd nn a)"
  by (auto simp: read_reference_def attributeQuery_exists_def listConnections_def objExists_def
        reference_def first_connection_def split: list.splits)

lemma assign_option:
  "(case r of None \<Rightarrow> d | Some c \<Rightarrow> d\<lparr>source_ref := Some c\<rparr>) = (if r = None then d else d\<lparr>source_ref := r\<rparr>)"
  "(case r of None \<Rightarrow> d | Some c \<Rightarrow> d\<lparr>source_driven := Some c\<rparr>) = (if r = None then d else d\<lparr>source_driven := r\<rparr>)"
  "(case r of None \<Rightarrow> d | Some c \<Rightarrow> d\<lparr>target_ref := Some c\<rparr>) = (if r = None then d else d\<lparr>target_ref := r\<rparr>)"
  "(case r of None \<Rightarrow> d | Some c \<Rightarrow> d\<lparr>target_driven := Some c\<rparr>) = (if r = None then d else d\<lparr>target_driven := r\<rparr>)"
  "(case r of None \<Rightarrow> d | Some c \<Rightarrow> d\<lparr>mult_matrix := Some c\<rparr>) = (if r = None then d else d\<lparr>mult_matrix := r\<rparr>)"
  "(case r of None \<Rightarrow> d | Some c \<Rightarrow> d\<lparr>decompose_matrix := Some c\<rparr>) = (if r = None then d else d\<lparr>decompose_matrix := r\<rparr>)"
  by (cases r; simp)+

lemma read_references_attr_map:
  assumes "lookup sc nn = Some nd"
    and "source_ref d = None" "source_driven d = None" "target_ref d = None"
        "target_driven d = None" "mult_matrix d = None" "decompose_matrix d = None"
  shows "read_references sc nn attr_map d =
     Inr (d\<lparr>source_ref := reference sc nd nn ''sourceRef'',
            source_driven := reference sc nd nn ''sourceDriven'',
            target_ref := reference sc nd nn ''targetRef'',
            target_driven := reference sc nd nn ''targetDriven'',
            mult_matrix := reference sc nd nn ''multMatrixNode'',
            decompose_matrix := reference sc nd nn ''decomposeMatrixNode''\<rparr>)"
  using assms(2-)
  by (simp add: attr_map_def read_reference_eq [OF assms(1)] assign_option)

text \<open>Reading an existing record node whose label attribute holds a value: the result in
  closed form.\<close>

lemma get_constraint_data_eq:
  assumes "lookup sc nn = Some nd" and "map_of (attrs nd) ''displayName'' \<noteq> Some MessageVal"
  shows "get_constraint_data sc nn =
     Inr \<lparr>network_node = nn, display_name = stored_label nd,
          source_ref = reference sc nd nn ''sourceRef'',
          source_driven = reference sc nd nn ''sourceDriven'',
          target_ref = reference sc nd nn ''targetRef'',
          target_driven = reference sc nd nn ''targetDriven'',
          mult_matrix = reference sc nd nn ''multMatrixNode'',
          decompose_matrix = reference sc nd nn ''decomposeMatrixNode''\<rparr>"
proof -
  have "seq (attributeQuery_exists sc ''displayName'' nn) (\<lambda>ex.
          if ex then seq (getAttr sc nn ''displayName'')
                      (\<lambda>v. Inr ((initial_data nn)\<lparr>display_name := or_empty v\<rparr>))
          else Inr (initial_data nn))
        = Inr ((initial_data nn)\<lparr>display_name := stored_label nd\<rparr>)"
    using assms
    by (cases "map_of (attrs nd) ''displayName''")
       (auto simp: attributeQuery_exists_def getAttr_def stored_label_def initial_data_def
          split: attr_value.splits)
  moreover have "get_constraint_data sc nn =
      seq (seq (attributeQuery_exists sc ''displayName'' nn) (\<lambda>ex.
          if ex then seq (getAttr sc nn ''displayName'')
                      (\<lambda>v. Inr ((initial_data nn)\<lparr>display_name := or_empty v\<rparr>))
          else Inr (initial_data nn))) (read_references sc nn attr_map)"
    by (simp add: get_constraint_data_def seq_def split: sum.splits)
  ultimately show ?thesis
    by (simp add: read_references_attr_map [OF assms(1)] initial_data_def)
qed

text \<open>Reading a node that is gone raises: the first \<^verbatim>\<open>attributeQuery\<close> does.\<close>

lemma get_constraint_data_missing:
  "lookup sc nn = None \<Longrightarrow> get_constraint_data sc nn = Inl RuntimeError"
  by (simp add: get_constraint_data_def attributeQuery_exists_def)

lemma reference_None_iff:
  "lookup sc nn = Some nd \<Longrightarrow> reference sc nd nn a = None \<longleftrightarrow> unresolved sc nn a"
  by (auto simp: reference_def unresolved_def first_connection_def split: list.splits)

text \<open>Reading looks at the nodes and the connections of the scene only.\<close>

lemma reference_cong:
  "conns sc' = conns sc \<Longrightarrow> reference sc' nd nn a = reference sc nd nn a"
  by (simp add: reference_def first_connection_def incoming_def outgoing_def)

subsection \<open>Deleting nodes\<close>

lemma delete_eq: "delete sc n = (if objExists sc n then Inr (without sc n) else Inl ValueError)"
  by (simp add: delete_def without_def)

lemma lookup_without: "lookup (without sc n) m = (if m = n then None else lookup sc m)"
proof -
  have "map_of (filter (\<lambda>(k, nd). k \<noteq> n) xs) m = (if m = n then None else map_of xs m)" for xs :: "(name \<times> node) list"
    by (induction xs) auto
  then show ?thesis by (simp add: lookup_def without_def)
qed

lemma keys_without: "keys (without sc n) = filter (\<lambda>(p, f). fst p \<noteq> n) (keys sc)"
  by (simp add: without_def)

lemma conns_without: "conns (without sc n) = filter (\<lambda>(s, d). fst s \<noteq> n \<and> fst d \<noteq> n) (conns sc)"
  by (simp add: without_def)

lemma first_connection_without: "first_connection (without sc n) p \<noteq> Some n"
  by (auto simp: first_connection_def incoming_def outgoing_def conns_without
        split: list.splits dest!: arg_cong [where f = set] simp: append_eq_Cons_conv map_eq_Cons_conv filter_eq_Cons_iff)

lemma reference_without: "reference (without sc n) nd nn a \<noteq> Some n"
  by (simp add: reference_def first_connection_without)

subsection \<open>The example scene with its constraint\<close>

lemma data_built:
  "get_constraint_data built_scene ''relMtxConstraint_data1''
     = Inr \<lparr>network_node = ''relMtxConstraint_data1'',
            display_name = StringVal (display_label ''prop1'' ''prop2''),
            source_ref = Some ''hand1'', source_driven = Some ''prop1'',
            target_ref = Some ''hand2'', target_driven = Some ''prop2'',
            mult_matrix = Some ''relMtxConstraint_multMatrix1'',
            decompose_matrix = Some ''relMtxConstraint_decomposeMatrix1''\<rparr>"
  unfolding built_scene_def by (rule get_constraint_data_created [OF wf_graph fresh_graph])

lemma nodes_built:
  "nodes built_scene = nodes example_scene @
     [(''relMtxConstraint_multMatrix1'', \<lparr>node_type = ''multMatrix'', parent = None, attrs = []\<rparr>),
      (''relMtxConstraint_decomposeMatrix1'', \<lparr>node_type = ''decomposeMatrix'', parent = None, attrs = []\<rparr>),
      (''relMtxConstraint_data1'', record_node ''prop1'' ''prop2'')]"
  by (simp add: built_scene_def graph_scene_def)

lemma conns_built:
  "conns built_scene =
       [((''prop1'', ''worldMatrix[0]''), (''relMtxConstraint_multMatrix1'', ''matrixIn[0]'')),
        ((''hand1'', ''worldInverseMatrix[0]''), (''relMtxConstraint_multMatrix1'', ''matrixIn[1]'')),
        ((''hand2'', ''worldMatrix[0]''), (''relMtxConstraint_multMatrix1'', ''matrixIn[2]'')),
        ((''propGrp2'', ''worldInverseMatrix[0]''), (''relMtxConstraint_multMatrix1'', ''matrixIn[3]'')),
        ((''relMtxConstraint_multMatrix1'', ''matrixSum''),
           (''relMtxConstraint_decomposeMatrix1'', ''inputMatrix'')),
        ((''relMtxConstraint_decomposeMatrix1'', ''outputTranslate''), (''prop2'', ''translate'')),
        ((''relMtxConstraint_decomposeMatrix1'', ''outputRotate''), (''prop2'', ''rotate''))]
       @ record_conns ''relMtxConstraint_data1'' ''hand1'' ''prop1'' ''hand2'' ''prop2''
          ''relMtxConstraint_multMatrix1'' ''relMtxConstraint_decomposeMatrix1''"
  by (simp add: built_scene_def graph_scene_def example_scene_def)

lemma built_as_update:
  "built_scene = example_scene\<lparr>nodes := nodes built_scene, conns := conns built_scene\<rparr>"
  by (simp add: built_scene_def graph_scene_def extend_scene_def)

lemma lookup_built:
  "lookup built_scene ''relMtxConstraint_data1'' = Some (record_node ''prop1'' ''prop2'')"
  by (simp add: lookup_def nodes_built example_scene_def)

lemma label_built:
  "map_of (attrs (record_node ''prop1'' ''prop2'')) ''displayName'' \<noteq> Some MessageVal"
  by (simp add: record_node_def NETWORK_NODE_IDENTIFIER_def)

lemma data_without_hand1:
  "get_constraint_data (without built_scene ''hand1'') ''relMtxConstraint_data1''
     = Inr \<lparr>network_node = ''relMtxConstraint_data1'',
            display_name = StringVal (display_label ''prop1'' ''prop2''),
            source_ref = None, source_driven = Some ''prop1'',
            target_ref = Some ''hand2'', target_driven = Some ''prop2'',
            mult_matrix = Some ''relMtxConstraint_multMatrix1'',
            decompose_matrix = Some ''relMtxConstraint_decomposeMatrix1''\<rparr>"
proof -
  have l: "lookup (without built_scene ''hand1'') ''relMtxConstraint_data1''
             = Some (record_node ''prop1'' ''prop2'')"
    by (simp add: lookup_without lookup_built)
  show ?thesis
    unfolding get_constraint_data_eq [OF l label_built]
    by (simp add: reference_def first_connection_def incoming_def outgoing_def conns_without
        conns_built record_conns_def record_node_def NETWORK_NODE_IDENTIFIER_def stored_label_def)
qed

text \<open>
  Claim C3. Reading a persisted record (its node exists and its label attribute holds a
  value) returns a record and raises nothing, whatever has become of the objects it referred
  to: each of the six reference fields is none exactly when its reference no longer resolves
  (the attribute is gone from the node, or nothing is connected to it any more), and the
  record read is incomplete exactly when some reference does not resolve. In particular,
  after any other object has been deleted from the scene, reading still returns a record,
  and no field of it names the deleted object. Reading returns a value only; it has no scene
  to change.
\<close>

theorem read_never_raises:
  assumes "lookup sc nn = Some nd" and "map_of (attrs nd) ''displayName'' \<noteq> Some MessageVal"
  shows "(\<exists>d. get_constraint_data sc nn = Inr d \<and>
           (source_ref d = None \<longleftrightarrow> unresolved sc nn ''sourceRef'') \<and>
           (source_driven d = None \<longleftrightarrow> unresolved sc nn ''sourceDriven'') \<and>
           (target_ref d = None \<longleftrightarrow> unresolved sc nn ''targetRef'') \<and>
           (target_driven d = None \<longleftrightarrow> unresolved sc nn ''targetDriven'') \<and>
           (mult_matrix d = None \<longleftrightarrow> unresolved sc nn ''multMatrixNode'') \<and>
           (decompose_matrix d = None \<longleftrightarrow> unresolved sc nn ''decomposeMatrixNode'') \<and>
           (incomplete d \<longleftrightarrow> (\<exists>a \<in> set message_attrs. unresolved sc nn a)))
   \<and> (\<forall>obj sc'. obj \<noteq> nn \<and> delete sc obj = Inr sc' \<longrightarrow>
         (\<exists>d'. get_constraint_data sc' nn = Inr d' \<and>
            source_ref d' \<noteq> Some obj \<and> source_driven d' \<noteq> Some obj \<and>
            target_ref d' \<noteq> Some obj \<and> target_driven d' \<noteq> Some obj \<and>
            mult_matrix d' \<noteq> Some obj \<and> decompose_matrix d' \<noteq> Some obj))"
proof (rule conjI)
  note r = reference_None_iff [OF assms(1)]
  show "\<exists>d. get_constraint_data sc nn = Inr d \<and>
           (source_ref d = None \<longleftrightarrow> unresolved sc nn ''sourceRef'') \<and>
           (source_driven d = None \<longleftrightarrow> unresolved sc nn ''sourceDriven'') \<and>
           (target_ref d = None \<longleftrightarrow> unresolved sc nn ''targetRef'') \<and>
           (target_driven d = None \<longleftrightarrow> unresolved sc nn ''targetDriven'') \<and>
           (mult_matrix d = None \<longleftrightarrow> unresolved sc nn ''multMatrixNode'') \<and>
           (decompose_matrix d = None \<longleftrightarrow> unresolved sc nn ''decomposeMatrixNode'') \<and>
           (incomplete d \<longleftrightarrow> (\<exists>a \<in> set message_attrs. unresolved sc nn a))"
    unfolding get_constraint_data_eq [OF assms]
    by (simp add: r incomplete_def message_attrs_def)
  show "\<forall>obj sc'. obj \<noteq> nn \<and> delete sc obj = Inr sc' \<longrightarrow>
         (\<exists>d'. get_constraint_data sc' nn = Inr d' \<and>
            source_ref d' \<noteq> Some obj \<and> source_driven d' \<noteq> Some obj \<and>
            target_ref d' \<noteq> Some obj \<and> target_driven d' \<noteq> Some obj \<and>
            mult_matrix d' \<noteq> Some obj \<and> decompose_matrix d' \<noteq> Some obj)"
  proof (intro allI impI)
    fix obj sc'
    assume a: "obj \<noteq> nn \<and> delete sc obj = Inr sc'"
    then have sc': "sc' = without sc obj"
      by (auto simp: delete_eq split: if_splits)
    from a assms(1) have l: "lookup sc' nn = Some nd"
      by (auto simp: sc' lookup_without)
    show "\<exists>d'. get_constraint_data sc' nn = Inr d' \<and>
            source_ref d' \<noteq> Some obj \<and> source_driven d' \<noteq> Some obj \<and>
            target_ref d' \<noteq> Some obj \<and> target_driven d' \<noteq> Some obj \<and>
            mult_matrix d' \<noteq> Some obj \<and> decompose_matrix d' \<noteq> Some obj"
      unfolding get_constraint_data_eq [OF l assms(2)]
      by (simp add: sc' reference_without)
  qed
qed

theorem read_never_raises_witness:
  "delete built_scene ''hand1'' = Inr (without built_scene ''hand1'') \<and>
   get_constraint_data (without built_scene ''hand1'') ''relMtxConstraint_data1''
     = Inr \<lparr>network_node = ''relMtxConstraint_data1'',
            display_name = StringVal (display_label ''prop1'' ''prop2''),
            source_ref = None, source_driven = Some ''prop1'',
            target_ref = Some ''hand2'', target_driven = Some ''prop2'',
            mult_matrix = Some ''relMtxConstraint_multMatrix1'',
            decompose_matrix = Some ''relMtxConstraint_decomposeMatrix1''\<rparr> \<and>
   incomplete \<lparr>network_node = ''relMtxConstraint_data1'',
            display_name = StringVal (display_label ''prop1'' ''prop2''),
            source_ref = None, source_driven = Some ''prop1'',
            target_ref = Some ''hand2'', target_driven = Some ''prop2'',
            mult_matrix = Some ''relMtxConstraint_multMatrix1'',
            decompose_matrix = Some ''relMtxConstraint_decomposeMatrix1''\<rparr> \<and>
   unresolved (without built_scene ''hand1'') ''relMtxConstraint_data1'' ''sourceRef''"
proof -
  have e: "objExists built_scene ''hand1''"
    by (simp add: objExists_def lookup_def nodes_built example_scene_def)
  have l: "lookup (without built_scene ''hand1'') ''relMtxConstraint_data1''
             = Some (record_node ''prop1'' ''prop2'')"
    by (simp add: lookup_without lookup_built)
  from read_never_raises [OF l label_built] show ?thesis
    by (simp add: data_without_hand1 delete_eq e incomplete_def)
qed

section \<open>Deleting a constraint\<close>

lemma delete_if_exists_eq: "delete_if_exists sc r = Inr (drop_node sc r)"
  by (auto simp: delete_if_exists_def drop_node_def delete_eq split: option.splits)

lemma delete_constraint_eq:
  "get_constraint_data sc nn = Inr d \<Longrightarrow> delete_constraint sc nn = (Inr (), after_delete sc nn d)"
  by (simp add: delete_constraint_def delete_if_exists_eq after_delete_def delete_eq Let_def)

lemma delete_constraint_missing:
  "lookup sc nn = None \<Longrightarrow> delete_constraint sc nn = (Inl RuntimeError, sc)"
  by (simp add: delete_constraint_def get_constraint_data_missing)

lemma lookup_after_delete: "lookup (after_delete sc nn d) nn = None"
  by (auto simp: after_delete_def Let_def lookup_without objExists_def)

lemma after_delete_built:
  "after_delete built_scene ''relMtxConstraint_data1''
      \<lparr>network_node = ''relMtxConstraint_data1'',
            display_name = StringVal (display_label ''prop1'' ''prop2''),
            source_ref = Some ''hand1'', source_driven = Some ''prop1'',
            target_ref = Some ''hand2'', target_driven = Some ''prop2'',
            mult_matrix = Some ''relMtxConstraint_multMatrix1'',
            decompose_matrix = Some ''relMtxConstraint_decomposeMatrix1''\<rparr> = example_scene"
  apply (subst built_as_update)
  apply (simp add: after_delete_def drop_node_def Let_def objExists_def lookup_def without_def
      nodes_built conns_built record_conns_def)
  apply (simp add: example_scene_def)
  done

text \<open>
  Claim C4 fails on the code. Whenever a first \<^verbatim>\<open>delete_constraint\<close> on a record succeeds, a
  second call on the same record raises: the record node is gone, and the call reads the
  record before it reaches any of its three existence checks.
\<close>

theorem delete_twice_raises:
  assumes "get_constraint_data sc nn = Inr d"
  shows "\<exists>sc'. delete_constraint sc nn = (Inr (), sc') \<and>
               delete_constraint sc' nn = (Inl RuntimeError, sc')"
  using assms by (simp add: delete_constraint_eq delete_constraint_missing lookup_after_delete)

theorem delete_twice_raises_witness:
  "delete_constraint built_scene ''relMtxConstraint_data1'' = (Inr (), example_scene) \<and>
   delete_constraint example_scene ''relMtxConstraint_data1'' = (Inl RuntimeError, example_scene)"
proof -
  have "lookup example_scene ''relMtxConstraint_data1'' = None"
    by (simp add: lookup_def example_scene_def)
  with delete_twice_raises [OF data_built] show ?thesis
    by (simp add: delete_constraint_eq [OF data_built] after_delete_built delete_constraint_missing)
qed

end
